theory Spec2Isabelle
  imports Complex_Main
begin

section \<open>Data model of \<open>qelos/transformer.py\<close>\<close>

text \<open>
  Tensors are nested lists of reals, outermost dimension first: a tensor of shape
  \<open>(batsize, seqlen, dim)\<close> is a list of \<open>batsize\<close> rows, each a list of \<open>seqlen\<close>
  vectors of length \<open>dim\<close>. Floating-point numbers are idealised as reals; the one
  non-finite value the attention code produces on purpose, \<open>log 0 = -inf\<close> for a masked
  position, is a value of its own (\<open>MinusInf\<close>). The module is modelled in evaluation
  mode, where both dropout layers are the identity. Sizes are natural numbers and the
  batch dimension of an input is not empty.
\<close>

type_synonym device = nat
type_synonym tensor2 = "real list list"
type_synonym tensor3 = "real list list list"
type_synonym tensor4 = "real list list list list"

datatype error =
    AssertionError
  | TypeError
  | ZeroDivisionError
  | IndexError
  | AttributeError
  | RuntimeError
  | HorizonException int nat
  | RelposCellException
  | LmModeException
  | NotANumber

text \<open>
  \<open>HorizonException h n\<close> is the exception of \<open>update_prev\<close> (horizon \<open>h\<close>, history
  length \<open>n\<close>), \<open>RelposCellException\<close> the one of \<open>forward\<close> for the full
  relative-position mode in cell mode, \<open>LmModeException\<close> the one of
  \<open>TS2S.set_cell_mode\<close>. \<open>RuntimeError\<close> is the tensor library's complaint about
  sizes that do not fit. \<open>NotANumber\<close> is not an exception: the source returns a tensor
  holding NaN there, which a tensor of reals cannot hold.
\<close>

datatype relpos_mode = Off | Simple | Full

record linear =
  in_features :: nat
  out_features :: nat
  weight :: tensor2
  bias :: "real list"

record mha =
  numheads :: nat
  indim :: nat
  bidir :: bool
  scale :: bool
  d_k :: nat
  d_v :: nat
  q_proj :: linear
  k_proj :: linear
  v_proj :: linear
  relpos :: relpos_mode
  relpos_emb :: "tensor2 option"
  cache_relpos_vec :: "(tensor3 \<times> device) option"
  cache_relpos_sizes :: "(nat \<times> nat) option"
  relpos_k_proj :: "linear option"
  relpos_u :: tensor2
  relpos_v :: tensor2
  maxlen :: nat
  vw_proj :: linear
  cell_mode :: bool
  horizon :: "int option"
  prev_k :: "tensor4 option"
  prev_v :: "tensor4 option"
  lm_mode :: bool

section \<open>Construction\<close>






section \<open>Cell mode control\<close>

text \<open>
  \<open>set_cell_mode\<close>: the two assertions come first, the horizon's before the
  direction's, and a failed assertion leaves the module as it was.
\<close>

definition set_cell_mode :: "mha \<Rightarrow> bool \<Rightarrow> int option \<Rightarrow> bool \<Rightarrow> mha \<times> (error + unit)" where
  "set_cell_mode self val horizon' lm_mode' =
     (if val \<and> horizon' = None then (self, Inl AssertionError)
      else if val \<and> \<not> (bidir self = False) then (self, Inl AssertionError)
      else (self\<lparr>cell_mode := val, horizon := horizon', lm_mode := lm_mode'\<rparr>, Inr ()))"

definition epoch_reset :: "mha \<Rightarrow> mha" where
  "epoch_reset self = self\<lparr>prev_k := None, prev_v := None\<rparr>"

definition rec_reset :: "mha \<Rightarrow> mha" where
  "rec_reset self = (if \<not> lm_mode self then epoch_reset self else self)"

section \<open>Tensor operations\<close>

definition size1 :: "'a list list \<Rightarrow> nat" where
  "size1 t = (case t of [] \<Rightarrow> 0 | r # _ \<Rightarrow> length r)"

definition dot :: "real list \<Rightarrow> real list \<Rightarrow> real" where
  "dot a b = sum_list (map2 (*) a b)"

definition linear_vec :: "linear \<Rightarrow> real list \<Rightarrow> real list" where
  "linear_vec l v = map2 (\<lambda>row b. dot row v + b) (weight l) (bias l)"

definition feat3 :: "nat \<Rightarrow> tensor3 \<Rightarrow> bool" where
  "feat3 n t = list_all (list_all (\<lambda>v. length v = n)) t"

text \<open>A linear layer on the last dimension; the width must be the layer's.\<close>

definition apply_linear :: "linear \<Rightarrow> tensor3 \<Rightarrow> error + tensor3" where
  "apply_linear l t =
     (if feat3 (in_features l) t then Inr (map (map (linear_vec l)) t) else Inl RuntimeError)"

text \<open>\<open>.view(batsize, seqlen, numheads, d)\<close>: the last dimension cut into heads.\<close>

definition split_heads :: "nat \<Rightarrow> nat \<Rightarrow> real list \<Rightarrow> real list list" where
  "split_heads H D v = map (\<lambda>h. take D (drop (h * D) v)) [0..<H]"

definition view_heads :: "nat \<Rightarrow> nat \<Rightarrow> tensor3 \<Rightarrow> tensor4" where
  "view_heads H D t = map (map (split_heads H D)) t"

definition tmap4 :: "('a \<Rightarrow> 'b) \<Rightarrow> 'a list list list list \<Rightarrow> 'b list list list list" where
  "tmap4 f t = map (map (map (map f))) t"

text \<open>\<open>torch.cat([a, b], 1)\<close>: the batch sizes must agree.\<close>

definition cat1 :: "tensor4 \<Rightarrow> tensor4 \<Rightarrow> error + tensor4" where
  "cat1 a b = (if length a = length b then Inr (map2 (@) a b) else Inl RuntimeError)"

text \<open>\<open>einsum("bshd,bzhd->bhsz")\<close>, the content scores.\<close>

definition einsum_bshd_bzhd :: "nat \<Rightarrow> tensor4 \<Rightarrow> tensor4 \<Rightarrow> tensor4" where
  "einsum_bshd_bzhd H q k =
     map2 (\<lambda>qb kb. map (\<lambda>h. map (\<lambda>qs. map (\<lambda>kz. dot (qs ! h) (kz ! h)) kb) qb) [0..<H]) q k"

text \<open>\<open>einsum("bshd,szhd->bhsz")\<close>, the relative-position scores.\<close>

definition einsum_bshd_szhd :: "nat \<Rightarrow> tensor4 \<Rightarrow> tensor4 \<Rightarrow> tensor4" where
  "einsum_bshd_szhd H q r =
     map (\<lambda>qb. map (\<lambda>h. map2 (\<lambda>qs rs. map (\<lambda>rz. dot (qs ! h) (rz ! h)) rs) qb r) [0..<H]) q"

text \<open>\<open>einsum("hd,bzhd->bhz")\<close> and \<open>einsum("hd,szhd->hsz")\<close> of the full mode.\<close>

definition einsum_hd_bzhd :: "nat \<Rightarrow> tensor2 \<Rightarrow> tensor4 \<Rightarrow> tensor3" where
  "einsum_hd_bzhd H u kR = map (\<lambda>kb. map (\<lambda>h. map (\<lambda>kz. dot (u ! h) (kz ! h)) kb) [0..<H]) kR"

definition einsum_hd_szhd :: "nat \<Rightarrow> tensor2 \<Rightarrow> tensor4 \<Rightarrow> tensor3" where
  "einsum_hd_szhd H u r = map (\<lambda>h. map (\<lambda>rs. map (\<lambda>rz. dot (u ! h) (rz ! h)) rs) r) [0..<H]"

definition add4 :: "tensor4 \<Rightarrow> tensor4 \<Rightarrow> tensor4" where
  "add4 a b = map2 (map2 (map2 (map2 (+)))) a b"

text \<open>Adding \<open>w_uR.unsqueeze(2)\<close> (the same for every query) and \<open>w_vR.unsqueeze(0)\<close>
  (the same for every batch row).\<close>

definition add_unsqueeze2 :: "tensor4 \<Rightarrow> tensor3 \<Rightarrow> tensor4" where
  "add_unsqueeze2 w u = map2 (map2 (\<lambda>wh uh. map (\<lambda>ws. map2 (+) ws uh) wh)) w u"

definition add_unsqueeze0 :: "tensor4 \<Rightarrow> tensor3 \<Rightarrow> tensor4" where
  "add_unsqueeze0 w u = map (\<lambda>wb. map2 (map2 (map2 (+))) wb u) w"

text \<open>\<open>torch.tril(torch.ones(n, n))\<close> and its right-aligned rows for a shorter query.
  The slice \<open>[-q:]\<close> with \<open>q = 0\<close> is the whole mask.\<close>

definition tril_ones :: "nat \<Rightarrow> tensor2" where
  "tril_ones n = map (\<lambda>i. map (\<lambda>j. if j \<le> i then 1 else 0) [0..<n]) [0..<n]"

definition causality_mask :: "nat \<Rightarrow> nat \<Rightarrow> tensor2" where
  "causality_mask ql seqlen =
     (let m = tril_ones seqlen
      in if ql < length m then (if ql = 0 then m else drop (length m - ql) m) else m)"

text \<open>Rows against \<open>S\<close> query positions: equal in number, or one row for all.\<close>

definition bcast_rows :: "nat \<Rightarrow> 'a list \<Rightarrow> error + 'a list" where
  "bcast_rows S c =
     (if length c = S then Inr c
      else if length c = 1 then Inr (replicate S (hd c))
      else Inl RuntimeError)"

datatype score = MinusInf | Finite real

definition add_log :: "real \<Rightarrow> real \<Rightarrow> score" where
  "add_log w m = (if m = 0 then MinusInf else Finite (w + ln m))"

definition score_exp :: "score \<Rightarrow> real" where
  "score_exp s = (case s of MinusInf \<Rightarrow> 0 | Finite r \<Rightarrow> exp r)"

definition softmax :: "score list \<Rightarrow> real list" where
  "softmax row = (let es = map score_exp row; Z = sum_list es in map (\<lambda>e. e / Z) es)"

text \<open>A row whose every position is masked out has no normalisation: NaN in the source.\<close>

definition softmax_nan :: "score list \<Rightarrow> bool" where
  "softmax_nan row = (row \<noteq> [] \<and> list_all (\<lambda>s. s = MinusInf) row)"

text \<open>\<open>einsum("bhsz,bzhd->bshd")\<close> for \<open>S\<close> query positions and head width \<open>D\<close>.\<close>

definition einsum_bhsz_bzhd :: "nat \<Rightarrow> nat \<Rightarrow> nat \<Rightarrow> tensor4 \<Rightarrow> tensor4 \<Rightarrow> tensor4" where
  "einsum_bhsz_bzhd H D S w v =
     map2 (\<lambda>wb vb.
        map (\<lambda>s. map (\<lambda>h. map (\<lambda>d. dot (wb ! h ! s) (map (\<lambda>vz. vz ! h ! d) vb)) [0..<D]) [0..<H])
          [0..<S]) w v"

section \<open>The incremental history\<close>

text \<open>
  Lines 114 to 119 of \<open>update_prev\<close>: the first step becomes the history, a later one
  is appended to it. The key history is assigned before the value history is
  concatenated.
\<close>

definition append_prev :: "mha \<Rightarrow> tensor4 \<Rightarrow> tensor4 \<Rightarrow> mha \<times> (error + unit)" where
  "append_prev self k v =
     (case prev_k self of
        None \<Rightarrow>
          (if prev_v self \<noteq> None then (self, Inl AssertionError)
           else (self\<lparr>prev_k := Some k, prev_v := Some v\<rparr>, Inr ()))
      | Some pk \<Rightarrow>
          (case cat1 pk k of
             Inl e \<Rightarrow> (self, Inl e)
           | Inr nk \<Rightarrow>
               (case prev_v self of
                  None \<Rightarrow> (self\<lparr>prev_k := Some nk\<rparr>, Inl TypeError)
                | Some pv \<Rightarrow>
                    (case cat1 pv v of
                       Inl e \<Rightarrow> (self\<lparr>prev_k := Some nk\<rparr>, Inl e)
                     | Inr nv \<Rightarrow> (self\<lparr>prev_k := Some nk, prev_v := Some nv\<rparr>, Inr ())))))"

text \<open>
  \<open>update_prev\<close>. The horizon is tested after the append, and the exception leaves the
  appended history in place; the truncation written after the \<open>raise\<close> is never run.
\<close>

definition update_prev :: "mha \<Rightarrow> tensor4 \<Rightarrow> tensor4 \<Rightarrow> mha \<times> (error + tensor4 \<times> tensor4)" where
  "update_prev self k v =
     (if size1 k \<noteq> 1 then (self, Inl AssertionError)
      else if size1 v \<noteq> 1 then (self, Inl AssertionError)
      else
        (case append_prev self k v of
           (self', Inl e) \<Rightarrow> (self', Inl e)
         | (self', Inr _) \<Rightarrow>
             (case (prev_k self', prev_v self', horizon self') of
                (Some nk, Some nv, Some h) \<Rightarrow>
                  if int (size1 nk) > h then (self', Inl (HorizonException h (size1 nk)))
                  else if \<not> (length nk = length nv \<and> size1 nk = size1 nv)
                  then (self', Inl AssertionError)
                  else (self', Inr (nk, nv))
              | _ \<Rightarrow> (self', Inl TypeError))))"

section \<open>Relative positions\<close>

text \<open>
  The offsets of the key positions from the query positions, the queries right-aligned
  with the keys.
\<close>

definition relpos_idx :: "nat \<Rightarrow> nat \<Rightarrow> int list list" where
  "relpos_idx ql kl =
     map (\<lambda>i. take kl (map (\<lambda>j. int j - (int i + (int kl - int ql))) [0..<2 * kl])) [0..<ql]"

text \<open>An embedding lookup: an index outside the table raises.\<close>

definition embedding :: "tensor2 \<Rightarrow> int list list \<Rightarrow> error + tensor3" where
  "embedding table idx =
     (if list_all (list_all (\<lambda>i. 0 \<le> i \<and> i < int (length table))) idx
      then Inr (map (map (\<lambda>i. table ! nat i)) idx)
      else Inl IndexError)"

text \<open>Lines 157 to 166 of \<open>forward\<close>: the lookup that fills the single-slot cache.\<close>

definition relpos_lookup :: "mha \<Rightarrow> nat \<Rightarrow> nat \<Rightarrow> device \<Rightarrow> mha \<times> (error + unit)" where
  "relpos_lookup self ql kl dev =
     (if int kl - int ql < 0 then (self, Inl AssertionError)
      else
        (case relpos_emb self of
           None \<Rightarrow> (self, Inl TypeError)
         | Some table \<Rightarrow>
             (case embedding table (map (map (\<lambda>i. i + int (maxlen self))) (relpos_idx ql kl)) of
                Inl e \<Rightarrow> (self, Inl e)
              | Inr relpos_vec \<Rightarrow>
                  (self\<lparr>cache_relpos_vec := Some (relpos_vec, dev),
                        cache_relpos_sizes := Some (ql, kl)\<rparr>, Inr ()))))"

text \<open>
  Lines 152 to 176 of \<open>forward\<close>. The cache is refilled when the sizes or the device
  differ from the cached ones; the projection of the cached vectors through \<open>k_proj\<close>
  is made at every call. \<open>kraw\<close> is the key source before projection (\<open>_k\<close>).
\<close>

definition relpos_region ::
  "mha \<Rightarrow> nat \<Rightarrow> nat \<Rightarrow> device \<Rightarrow> tensor3 \<Rightarrow>
   mha \<times> (error + (tensor4 \<times> (tensor4 \<times> tensor4) option) option)" where
  "relpos_region self ql kl dev kraw =
     (if relpos_emb self \<noteq> None \<and> relpos self \<noteq> Off then
        (case (if cache_relpos_sizes self \<noteq> Some (ql, kl) then relpos_lookup self ql kl dev
               else (case cache_relpos_vec self of
                       None \<Rightarrow> (self, Inl AttributeError)
                     | Some (cvec, cdev) \<Rightarrow>
                         if cdev \<noteq> dev then relpos_lookup self ql kl dev else (self, Inr ()))) of
           (self', Inl e) \<Rightarrow> (self', Inl e)
         | (self', Inr u) \<Rightarrow>
             (case cache_relpos_vec self' of
                None \<Rightarrow> (self', Inl AttributeError)
              | Some (cvec, cdev) \<Rightarrow>
                  (case apply_linear (k_proj self') cvec of
                     Inl e \<Rightarrow> (self', Inl e)
                   | Inr relpos_vec_proj \<Rightarrow>
                       let relpos_vec_heads =
                             view_heads (numheads self') (d_k self') relpos_vec_proj
                       in (case relpos_k_proj self' of
                             None \<Rightarrow> (self', Inr (Some (relpos_vec_heads, None)))
                           | Some rk \<Rightarrow>
                               if cell_mode self' then (self', Inl RelposCellException)
                               else
                                 (case (apply_linear rk kraw, apply_linear rk cvec) of
                                    (Inr kR, Inr vecR) \<Rightarrow>
                                      (self', Inr (Some (relpos_vec_heads,
                                         Some (view_heads (numheads self') (d_k self') kR,
                                               view_heads (numheads self') (d_k self') vecR))))
                                  | _ \<Rightarrow> (self', Inl RuntimeError))))))
      else (self, Inr None))"

section \<open>Attention\<close>

text \<open>
  Lines 198 to 208 of \<open>forward\<close>: the padding mask on the keys, of shape
  \<open>(batsize, k_len)\<close>, times the causal mask of a unidirectional core. The result is
  given for every batch row and query position; \<open>None\<close> when there is no mask at all.
  A padding mask of another shape is a size error here (broadcasting a dimension of
  size one is not modelled for it).
\<close>

definition whole_mask ::
  "mha \<Rightarrow> nat \<Rightarrow> nat \<Rightarrow> nat \<Rightarrow> bool list list option \<Rightarrow> error + tensor3 option" where
  "whole_mask self B S K kmask =
     (case kmask of
        Some m \<Rightarrow>
          if \<not> (length m = B \<and> list_all (\<lambda>r. length r = K) m) then Inl RuntimeError
          else
            let wholemask = map (map (\<lambda>b. if b then 1 else 0)) m in
            if bidir self = False then
              (case bcast_rows S (causality_mask S K) of
                 Inl e \<Rightarrow> Inl e
               | Inr c \<Rightarrow> Inr (Some (map (\<lambda>mb. map (\<lambda>cr. map2 (*) mb cr) c) wholemask)))
            else Inr (Some (map (\<lambda>mb. replicate S mb) wholemask))
      | None \<Rightarrow>
          if bidir self = False then
            (case bcast_rows S (causality_mask S K) of
               Inl e \<Rightarrow> Inl e
             | Inr c \<Rightarrow> Inr (Some (replicate B c)))
          else Inr None)"

text \<open>
  Lines 180 to 195 of \<open>forward\<close>: content scores, relative-position terms and
  scaling. \<open>rel\<close> is the result of the relative-position region.
\<close>

definition raw_scores ::
  "mha \<Rightarrow> tensor4 \<Rightarrow> tensor4 \<Rightarrow> (tensor4 \<times> (tensor4 \<times> tensor4) option) option \<Rightarrow> tensor4" where
  "raw_scores self q k rel =
     (let H = numheads self;
          w = einsum_bshd_bzhd H q k;
          w = (case rel of
                 None \<Rightarrow> w
               | Some (relpos_vec_heads, full) \<Rightarrow>
                   let w = add4 w (einsum_bshd_szhd H q relpos_vec_heads) in
                   (case full of
                      None \<Rightarrow> w
                    | Some (relpos_kR, relpos_vecR) \<Rightarrow>
                        add_unsqueeze0
                          (add_unsqueeze2 w (einsum_hd_bzhd H (relpos_u self) relpos_kR))
                          (einsum_hd_szhd H (relpos_v self) relpos_vecR)))
      in if scale self then tmap4 (\<lambda>e. e / sqrt (real (d_k self))) w else w)"

text \<open>
  Lines 197 to 212 of \<open>forward\<close>: the logarithm of the mask added to the scores.
  The sizes of the mask are \<open>q.size(1)\<close> and \<open>k.size(1)\<close>.
\<close>

definition attention_scores ::
  "mha \<Rightarrow> tensor4 \<Rightarrow> tensor4 \<Rightarrow> (tensor4 \<times> (tensor4 \<times> tensor4) option) option \<Rightarrow>
   bool list list option \<Rightarrow> error + score list list list list" where
  "attention_scores self q k rel kmask =
     (let w = raw_scores self q k rel
      in case whole_mask self (length q) (size1 q) (size1 k) kmask of
           Inl e \<Rightarrow> Inl e
         | Inr None \<Rightarrow> Inr (tmap4 Finite w)
         | Inr (Some wholemask) \<Rightarrow>
             Inr (map2 (\<lambda>wb mb. map (\<lambda>wh. map2 (map2 add_log) wh mb) wb) w wholemask))"

text \<open>
  The scores hold NaN when a row is masked out entirely, or when they were scaled by
  \<open>1 / sqrt 0\<close>.
\<close>

definition scores_nan :: "mha \<Rightarrow> score list list list list \<Rightarrow> bool" where
  "scores_nan self sc =
     ((scale self \<and> d_k self = 0 \<and> concat (concat (concat sc)) \<noteq> []) \<or>
      list_ex softmax_nan (concat (concat sc)))"

text \<open>Line 215 of \<open>forward\<close>: the attention weights \<open>w\<close> after the softmax.\<close>

definition attention_weights ::
  "mha \<Rightarrow> tensor4 \<Rightarrow> tensor4 \<Rightarrow> (tensor4 \<times> (tensor4 \<times> tensor4) option) option \<Rightarrow>
   bool list list option \<Rightarrow> error + tensor4" where
  "attention_weights self q k rel kmask =
     (case attention_scores self q k rel kmask of
        Inl e \<Rightarrow> Inl e
      | Inr sc \<Rightarrow> if scores_nan self sc then Inl NotANumber else Inr (map (map (map softmax)) sc))"

text \<open>
  Lines 219 to 226 of \<open>forward\<close>: the values mixed by the weights, the heads
  flattened, and the output projection. The two size conditions of this stage (as many
  values as keys, and as many features as \<open>vw_proj\<close> takes) are tested before the
  weights are computed: every exception of the two stages is the same
  \<open>RuntimeError\<close>, so the outcome is the source's.
\<close>

definition attend ::
  "mha \<Rightarrow> tensor4 \<Rightarrow> tensor4 \<Rightarrow> tensor4 \<Rightarrow> (tensor4 \<times> (tensor4 \<times> tensor4) option) option \<Rightarrow>
   bool list list option \<Rightarrow> error + tensor3" where
  "attend self q k v rel kmask =
     (if size1 k \<noteq> size1 v \<or> numheads self * d_v self \<noteq> in_features (vw_proj self)
      then Inl RuntimeError
      else
        (case attention_weights self q k rel kmask of
           Inl e \<Rightarrow> Inl e
         | Inr w \<Rightarrow>
             let vw = einsum_bhsz_bzhd (numheads self) (d_v self) (size1 q) w v
             in Inr (map (map (\<lambda>heads. linear_vec (vw_proj self) (concat heads))) vw)))"

text \<open>Lines 143 to 145 of \<open>forward\<close>: the three projections, viewed by heads.\<close>

definition project ::
  "mha \<Rightarrow> tensor3 \<Rightarrow> tensor3 \<Rightarrow> tensor3 \<Rightarrow> error + tensor4 \<times> tensor4 \<times> tensor4" where
  "project self q' k' v' =
     (case (apply_linear (q_proj self) q', apply_linear (k_proj self) k',
            apply_linear (v_proj self) v') of
        (Inr q, Inr k, Inr v) \<Rightarrow>
          if length k' \<noteq> length q' \<or> length v' \<noteq> length q' then Inl RuntimeError
          else Inr (view_heads (numheads self) (d_k self) q,
                    view_heads (numheads self) (d_k self) k,
                    view_heads (numheads self) (d_v self) v)
      | _ \<Rightarrow> Inl RuntimeError)"

text \<open>
  \<open>MultiHeadAttention.forward\<close>. The input \<open>x\<close> lives on the device \<open>dev\<close>. In cell mode
  a mask is refused first of all: \<open>NotImplemented\<close> is not callable, so the
  \<open>raise\<close> statement ends in a \<open>TypeError\<close>.
\<close>

definition forward ::
  "mha \<Rightarrow> tensor3 \<Rightarrow> tensor3 option \<Rightarrow> tensor3 option \<Rightarrow> bool list list option \<Rightarrow> device \<Rightarrow>
   mha \<times> (error + tensor3)" where
  "forward self x k v kmask dev =
     (if cell_mode self \<and> kmask \<noteq> None then (self, Inl TypeError)
      else
        let q' = x;
            k' = (case k of None \<Rightarrow> q' | Some kk \<Rightarrow> kk);
            v' = (case v of None \<Rightarrow> k' | Some vv \<Rightarrow> vv)
        in case project self q' k' v' of
             Inl e \<Rightarrow> (self, Inl e)
           | Inr (q, k, v) \<Rightarrow>
               (case (if cell_mode self then update_prev self k v else (self, Inr (k, v))) of
                  (self1, Inl e) \<Rightarrow> (self1, Inl e)
                | (self1, Inr (k, v)) \<Rightarrow>
                    (case relpos_region self1 (size1 q) (size1 k) dev k' of
                       (self2, Inl e) \<Rightarrow> (self2, Inl e)
                     | (self2, Inr rel) \<Rightarrow> (self2, attend self2 q k v rel kmask))))"

section \<open>Sessions of incremental steps\<close>


text \<open>The steps of a sequence: \<open>x[:, t:t+1, :]\<close> for every position \<open>t\<close>.\<close>

definition step_input :: "tensor3 \<Rightarrow> nat \<Rightarrow> tensor3" where
  "step_input x t = map (\<lambda>row. [row ! t]) x"

definition last_position :: "tensor3 \<Rightarrow> tensor3" where
  "last_position out = map (\<lambda>row. [last row]) out"

text \<open>\<open>_prev_k.size(1)\<close> and \<open>_prev_v.size(1)\<close>, zero for an absent history.\<close>

definition history_len :: "mha \<Rightarrow> nat" where
  "history_len self = (case prev_k self of None \<Rightarrow> 0 | Some pk \<Rightarrow> size1 pk)"


section \<open>Well-formed cores and inputs\<close>


definition wf_linear :: "nat \<Rightarrow> nat \<Rightarrow> linear \<Rightarrow> bool" where
  "wf_linear i o' l =
     (in_features l = i \<and> out_features l = o' \<and> length (weight l) = o' \<and>
      length (bias l) = o' \<and> list_all (\<lambda>r. length r = i) (weight l))"

text \<open>
  The shapes the constructor gives a core whose value width is a multiple of the head
  count: \<open>vw_proj\<close> takes \<open>vdim\<close> features and the heads deliver
  \<open>numheads * d_v\<close>.
\<close>

definition wf_mha :: "mha \<Rightarrow> bool" where
  "wf_mha self =
     (wf_linear (indim self) (numheads self * d_k self) (q_proj self) \<and>
      wf_linear (indim self) (numheads self * d_k self) (k_proj self) \<and>
      wf_linear (indim self) (numheads self * d_v self) (v_proj self) \<and>
      wf_linear (numheads self * d_v self) (indim self) (vw_proj self) \<and>
      (case relpos_emb self of
         None \<Rightarrow> relpos self = Off
       | Some table \<Rightarrow>
           relpos self \<noteq> Off \<and> 0 < maxlen self \<and> length table = 2 * maxlen self \<and>
           list_all (\<lambda>r. length r = indim self) table) \<and>
      (case relpos_k_proj self of
         None \<Rightarrow> relpos self \<noteq> Full
       | Some rk \<Rightarrow>
           relpos self = Full \<and> wf_linear (indim self) (numheads self * d_k self) rk))"

text \<open>The cached relative-position vectors are the ones of the cached sizes.\<close>

definition relpos_cache_ok :: "mha \<Rightarrow> bool" where
  "relpos_cache_ok self =
     (case cache_relpos_sizes self of
        None \<Rightarrow> True
      | Some (ql, kl) \<Rightarrow>
          (case (cache_relpos_vec self, relpos_emb self) of
             (Some (cvec, cdev), Some table) \<Rightarrow>
               ql \<le> kl \<and>
               embedding table (map (map (\<lambda>i. i + int (maxlen self))) (relpos_idx ql kl))
                 = Inr cvec
           | _ \<Rightarrow> False))"

section \<open>The sequence-to-sequence driver\<close>

text \<open>
  \<open>TS2S\<close> holds an encoder and a decoder, any modules with the call signatures of
  \<open>TransformerEncoder\<close> and \<open>TransformerDecoder\<close>. Their \<open>forward\<close> methods are the
  parameters \<open>enc\<close> and \<open>dec\<close>, acting on the modules' states held in the driver.
  \<open>_ctxmask\<close> caches the argument \<open>xmask\<close>, which may itself be \<open>None\<close>.
\<close>

record ('x, 'm, 'c, 'es, 'ds) ts2s =
  encoder :: 'es
  decoder :: 'ds
  ts_cell_mode :: bool
  ts_x :: "'x option"
  ts_ctx :: "'c option"
  ts_ctxmask :: "'m option"

definition TS2S_init :: "'es \<Rightarrow> 'ds \<Rightarrow> ('x, 'm, 'c, 'es, 'ds) ts2s" where
  "TS2S_init e d =
     \<lparr>encoder = e, decoder = d, ts_cell_mode = False, ts_x = None, ts_ctx = None,
      ts_ctxmask = None\<rparr>"

definition TS2S_rec_reset :: "('x, 'm, 'c, 'es, 'ds) ts2s \<Rightarrow> ('x, 'm, 'c, 'es, 'ds) ts2s" where
  "TS2S_rec_reset self = self\<lparr>ts_x := None, ts_ctx := None, ts_ctxmask := None\<rparr>"

definition TS2S_set_cell_mode ::
  "('ds \<Rightarrow> bool \<Rightarrow> int option \<Rightarrow> bool \<Rightarrow> 'ds \<times> (error + unit)) \<Rightarrow>
   ('x, 'm, 'c, 'es, 'ds) ts2s \<Rightarrow> bool \<Rightarrow> int option \<Rightarrow> bool \<Rightarrow>
   ('x, 'm, 'c, 'es, 'ds) ts2s \<times> (error + unit)" where
  "TS2S_set_cell_mode dec_set_cell_mode self val horizon' lm_mode' =
     (if lm_mode' then (self, Inl LmModeException)
      else
        (case dec_set_cell_mode (decoder self) val horizon' lm_mode' of
           (d, r) \<Rightarrow> (self\<lparr>ts_cell_mode := val, decoder := d\<rparr>, r)))"

text \<open>Line 474 of \<open>TS2S.forward\<close>: the decoder called on the context and its mask.\<close>

definition TS2S_decode ::
  "('ds \<Rightarrow> 'y \<Rightarrow> 'c \<Rightarrow> 'm option \<Rightarrow> 'm option \<Rightarrow> 'ds \<times> (error + 'o)) \<Rightarrow>
   ('x, 'm, 'c, 'es, 'ds) ts2s \<Rightarrow> 'y \<Rightarrow> 'c \<Rightarrow> 'm option \<Rightarrow> 'm option \<Rightarrow>
   ('x, 'm, 'c, 'es, 'ds) ts2s \<times> (error + 'o)" where
  "TS2S_decode dec self y ctx ymask xmask =
     (case dec (decoder self) y ctx ymask xmask of (d, r) \<Rightarrow> (self\<lparr>decoder := d\<rparr>, r))"

text \<open>
  \<open>TS2S.forward\<close>. In cell mode the encoder runs only while no context is cached,
  and the decoder gets the cached context and mask.
\<close>

definition TS2S_forward ::
  "('es \<Rightarrow> 'x \<Rightarrow> 'm option \<Rightarrow> 'es \<times> (error + 'c)) \<Rightarrow>
   ('ds \<Rightarrow> 'y \<Rightarrow> 'c \<Rightarrow> 'm option \<Rightarrow> 'm option \<Rightarrow> 'ds \<times> (error + 'o)) \<Rightarrow>
   ('x, 'm, 'c, 'es, 'ds) ts2s \<Rightarrow> 'x \<Rightarrow> 'y \<Rightarrow> 'm option \<Rightarrow> 'm option \<Rightarrow>
   ('x, 'm, 'c, 'es, 'ds) ts2s \<times> (error + 'o)" where
  "TS2S_forward enc dec self x y xmask ymask =
     (if ts_cell_mode self then
        (case ts_ctx self of
           None \<Rightarrow>
             (case enc (encoder self) x xmask of
                (e, Inl err) \<Rightarrow> (self\<lparr>encoder := e\<rparr>, Inl err)
              | (e, Inr ctx) \<Rightarrow>
                  TS2S_decode dec
                    (self\<lparr>encoder := e, ts_ctx := Some ctx, ts_x := Some x, ts_ctxmask := xmask\<rparr>)
                    y ctx ymask xmask)
         | Some ctx \<Rightarrow> TS2S_decode dec self y ctx ymask (ts_ctxmask self))
      else
        (case enc (encoder self) x xmask of
           (e, Inl err) \<Rightarrow> (self\<lparr>encoder := e\<rparr>, Inl err)
         | (e, Inr ctx) \<Rightarrow> TS2S_decode dec (self\<lparr>encoder := e\<rparr>) y ctx ymask xmask))"

text \<open>A session: the calls \<open>(x, y, xmask, ymask)\<close> made one after the other.\<close>

fun TS2S_run ::
  "('es \<Rightarrow> 'x \<Rightarrow> 'm option \<Rightarrow> 'es \<times> (error + 'c)) \<Rightarrow>
   ('ds \<Rightarrow> 'y \<Rightarrow> 'c \<Rightarrow> 'm option \<Rightarrow> 'm option \<Rightarrow> 'ds \<times> (error + 'o)) \<Rightarrow>
   ('x, 'm, 'c, 'es, 'ds) ts2s \<Rightarrow> ('x \<times> 'y \<times> 'm option \<times> 'm option) list \<Rightarrow>
   ('x, 'm, 'c, 'es, 'ds) ts2s" where
  "TS2S_run enc dec self [] = self"
| "TS2S_run enc dec self ((x, y, xmask, ymask) # calls) =
     TS2S_run enc dec (fst (TS2S_forward enc dec self x y xmask ymask)) calls"

section \<open>States of a session in cell mode\<close>

text \<open>An input projected by a linear layer and viewed by heads.\<close>

definition proj_heads :: "nat \<Rightarrow> nat \<Rightarrow> linear \<Rightarrow> tensor3 \<Rightarrow> tensor4" where
  "proj_heads H D l x = view_heads H D (map (map (linear_vec l)) x)"

text \<open>The history after a step: the step itself, or the step appended to the history so far.\<close>

definition hist_append :: "tensor4 option \<Rightarrow> tensor4 \<Rightarrow> tensor4" where
  "hist_append p k = (case p of None \<Rightarrow> k | Some pk \<Rightarrow> map2 (@) pk k)"

text \<open>
  The relative-position vectors of a query of length \<open>ql\<close> against keys of length
  \<open>kl\<close>, looked up in the table: what lines 157 to 163 of \<open>forward\<close> compute when every
  index is inside the table.
\<close>

definition relpos_vec :: "tensor2 \<Rightarrow> nat \<Rightarrow> nat \<Rightarrow> nat \<Rightarrow> tensor3" where
  "relpos_vec table ml ql kl =
     map (map (\<lambda>i. table ! nat i)) (map (map (\<lambda>i. i + int ml)) (relpos_idx ql kl))"


text \<open>
  The core after a successful step in cell mode on the input \<open>x\<close>: the projected keys
  and values of the step are in the history, and with relative positions on, the cache
  holds the vectors for one query against the new history length.
\<close>

definition cell_state :: "mha \<Rightarrow> tensor3 \<Rightarrow> device \<Rightarrow> mha" where
  "cell_state self x dev =
     (let s1 = self\<lparr>prev_k := Some (hist_append (prev_k self)
                        (proj_heads (numheads self) (d_k self) (k_proj self) x)),
                     prev_v := Some (hist_append (prev_v self)
                        (proj_heads (numheads self) (d_v self) (v_proj self) x))\<rparr>
      in case relpos_emb self of
           None \<Rightarrow> s1
         | Some table \<Rightarrow>
             s1\<lparr>cache_relpos_vec :=
                   Some (relpos_vec table (maxlen self) 1 (history_len self + 1), dev),
                 cache_relpos_sizes := Some (1, history_len self + 1)\<rparr>)"

text \<open>The result of the relative-position region for a core whose mode is not full.\<close>

definition cell_rel :: "mha \<Rightarrow> nat \<Rightarrow> nat \<Rightarrow> (tensor4 \<times> (tensor4 \<times> tensor4) option) option" where
  "cell_rel self ql kl =
     (case relpos_emb self of
        None \<Rightarrow> None
      | Some table \<Rightarrow>
          Some (proj_heads (numheads self) (d_k self) (k_proj self)
                  (relpos_vec table (maxlen self) ql kl), None))"


section \<open>Concrete cores and drivers\<close>

text \<open>
  A unidirectional core with one head of width one whose four projections are the
  identity, the same core in cell mode, parameter values for the constructor, and a
  driver whose encoder and decoder count their calls.
\<close>

definition unit_linear :: "real \<Rightarrow> linear" where
  "unit_linear w = \<lparr>in_features = 1, out_features = 1, weight = [[w]], bias = [0]\<rparr>"

definition demo_core :: mha where
  "demo_core =
     \<lparr>numheads = 1, indim = 1, bidir = False, scale = True, d_k = 1, d_v = 1,
      q_proj = unit_linear 1, k_proj = unit_linear 1, v_proj = unit_linear 1,
      relpos = Off, relpos_emb = None, cache_relpos_vec = None, cache_relpos_sizes = None,
      relpos_k_proj = None, relpos_u = [], relpos_v = [], maxlen = 1,
      vw_proj = unit_linear 1,
      cell_mode = False, horizon = None, prev_k = None, prev_v = None, lm_mode = False\<rparr>"

definition demo_cell :: "int \<Rightarrow> mha" where
  "demo_cell h = demo_core\<lparr>cell_mode := True, horizon := Some h\<rparr>"


definition demo_enc :: "nat \<Rightarrow> nat \<Rightarrow> bool option \<Rightarrow> nat \<times> (error + nat)" where
  "demo_enc calls x xmask = (calls + 1, Inr (10 * x))"

definition demo_dec ::
  "nat \<Rightarrow> nat \<Rightarrow> nat \<Rightarrow> bool option \<Rightarrow> bool option \<Rightarrow> nat \<times> (error + nat \<times> bool option)" where
  "demo_dec calls y ctx ymask ctxmask = (calls + 1, Inr (y + ctx, ctxmask))"

definition demo_ts2s :: "(nat, bool, nat, nat, nat) ts2s" where
  "demo_ts2s = (TS2S_init 0 0)\<lparr>ts_cell_mode := True\<rparr>"


section \<open>Construction and cell mode control\<close>

text \<open>
  Claim C8. Enabling cell mode fails when no horizon is given or when the core is
  bidirectional; on a unidirectional core with a horizon it succeeds and records the
  mode, the horizon and the language-model flag.
\<close>

theorem C8_set_cell_mode_enable:
  "(horizon' = None \<or> bidir self \<longrightarrow>
      set_cell_mode self True horizon' lm = (self, Inl AssertionError)) \<and>
   (horizon' = Some h \<and> \<not> bidir self \<longrightarrow>
      set_cell_mode self True horizon' lm =
        (self\<lparr>cell_mode := True, horizon := Some h, lm_mode := lm\<rparr>, Inr ()))"
  by (auto simp: set_cell_mode_def)

theorem C8_set_cell_mode_enable_witness:
  "set_cell_mode demo_core True None False = (demo_core, Inl AssertionError) \<and>
   set_cell_mode (demo_core\<lparr>bidir := True\<rparr>) True (Some 3) False
     = (demo_core\<lparr>bidir := True\<rparr>, Inl AssertionError) \<and>
   set_cell_mode demo_core True (Some 3) False = (demo_cell 3, Inr ())"
  using C8_set_cell_mode_enable
          [where horizon' = None and self = demo_core and lm = False and h = 0]
        C8_set_cell_mode_enable
          [where horizon' = "Some 3" and self = "demo_core\<lparr>bidir := True\<rparr>"
             and lm = False and h = 3]
        C8_set_cell_mode_enable
          [where horizon' = "Some 3" and self = demo_core and lm = False and h = 3]
  by (simp add: demo_core_def demo_cell_def)




section \<open>The mask guard of cell mode\<close>

text \<open>
  Claim C7. In cell mode a call of \<open>forward\<close> with a key mask raises, and the core
  after the call is the core before it: nothing was projected or appended.
\<close>

theorem C7_mask_in_cell_mode:
  "cell_mode self \<Longrightarrow> forward self x k v (Some m) dev = (self, Inl TypeError)"
  by (simp add: forward_def)

theorem C7_mask_in_cell_mode_witness:
  "cell_mode (demo_cell 3) \<and>
   forward (demo_cell 3) [[[1]]] None None (Some [[True]]) 0 = (demo_cell 3, Inl TypeError)"
  using C7_mask_in_cell_mode [of "demo_cell 3" "[[[1]]]" None None "[[True]]" 0]
  by (simp add: demo_cell_def)

section \<open>The cached context of the driver\<close>

lemma TS2S_forward_cached:
  "ts_cell_mode self \<Longrightarrow> ts_ctx self = Some ctx \<Longrightarrow>
   TS2S_forward enc dec self x y xmask ymask = TS2S_decode dec self y ctx ymask (ts_ctxmask self)"
  by (simp add: TS2S_forward_def)

lemma TS2S_decode_fields:
  "ts_ctx (fst (TS2S_decode dec self y ctx ymask m)) = ts_ctx self \<and>
   ts_ctxmask (fst (TS2S_decode dec self y ctx ymask m)) = ts_ctxmask self \<and>
   ts_cell_mode (fst (TS2S_decode dec self y ctx ymask m)) = ts_cell_mode self \<and>
   encoder (fst (TS2S_decode dec self y ctx ymask m)) = encoder self"
  by (simp add: TS2S_decode_def split: prod.splits)

lemma TS2S_run_cached:
  "ts_cell_mode self \<Longrightarrow> ts_ctx self = Some ctx \<Longrightarrow>
   ts_cell_mode (TS2S_run enc dec self calls) \<and>
   ts_ctx (TS2S_run enc dec self calls) = Some ctx \<and>
   ts_ctxmask (TS2S_run enc dec self calls) = ts_ctxmask self \<and>
   encoder (TS2S_run enc dec self calls) = encoder self"
proof (induction calls arbitrary: self)
  case Nil
  then show ?case by simp
next
  case (Cons c calls)
  obtain x y xm ym where c: "c = (x, y, xm, ym)" by (cases c) auto
  let ?s = "fst (TS2S_forward enc dec self x y xm ym)"
  have s: "?s = fst (TS2S_decode dec self y ctx ym (ts_ctxmask self))"
    using Cons.prems by (simp add: TS2S_forward_cached)
  have "ts_cell_mode ?s" "ts_ctx ?s = Some ctx" "ts_ctxmask ?s = ts_ctxmask self"
       "encoder ?s = encoder self"
    using Cons.prems by (simp_all add: s TS2S_decode_fields)
  with Cons.IH [of ?s] show ?case by (simp add: c)
qed

text \<open>
  Claim C9. In cell mode with no context cached, a call whose encoder run returns
  \<open>ctx\<close> caches \<open>ctx\<close> and the mask \<open>xmask\<close>. After any further calls of the session,
  whatever their arguments, the cached pair and the encoder's state are the same, and
  one more call with any \<open>x'\<close> and \<open>xmask'\<close> is the decoder called on the cached
  context and mask: the encoder \<open>enc'\<close> of those calls, which may be any function, is
  not run and its state is not touched.
\<close>

theorem C9_context_cached:
  assumes "ts_cell_mode self" and "ts_ctx self = None"
    and "enc (encoder self) x xmask = (e, Inr ctx)"
  shows "(let s1 = fst (TS2S_forward enc dec self x y xmask ymask);
              sn = TS2S_run enc' dec s1 calls
          in ts_ctx s1 = Some ctx \<and> ts_ctxmask s1 = xmask \<and> encoder s1 = e \<and>
             ts_ctx sn = Some ctx \<and> ts_ctxmask sn = xmask \<and> encoder sn = e \<and>
             TS2S_forward enc' dec sn x' y' xmask' ymask'
               = TS2S_decode dec sn y' ctx ymask' xmask \<and>
             encoder (fst (TS2S_forward enc' dec sn x' y' xmask' ymask')) = e)"
proof -
  let ?s1 = "fst (TS2S_forward enc dec self x y xmask ymask)"
  let ?sn = "TS2S_run enc' dec ?s1 calls"
  have s1: "?s1 = fst (TS2S_decode dec
      (self\<lparr>encoder := e, ts_ctx := Some ctx, ts_x := Some x, ts_ctxmask := xmask\<rparr>)
      y ctx ymask xmask)"
    using assms by (simp add: TS2S_forward_def)
  have f1: "ts_cell_mode ?s1" "ts_ctx ?s1 = Some ctx" "ts_ctxmask ?s1 = xmask" "encoder ?s1 = e"
    using assms(1) by (simp_all add: s1 TS2S_decode_fields)
  have fn: "ts_cell_mode ?sn" "ts_ctx ?sn = Some ctx" "ts_ctxmask ?sn = xmask" "encoder ?sn = e"
    using TS2S_run_cached [OF f1(1) f1(2), of enc' dec calls] f1 by simp_all
  have call: "TS2S_forward enc' dec ?sn x' y' xmask' ymask'
      = TS2S_decode dec ?sn y' ctx ymask' xmask"
    using TS2S_forward_cached [OF fn(1) fn(2)] fn(3) by simp
  have "encoder (fst (TS2S_forward enc' dec ?sn x' y' xmask' ymask')) = e"
    by (simp add: call TS2S_decode_fields fn)
  with f1 fn call show ?thesis by (simp add: Let_def)
qed

theorem C9_context_cached_witness:
  "(let s1 = fst (TS2S_forward demo_enc demo_dec demo_ts2s 7 1 (Some True) None);
        sn = TS2S_run demo_enc demo_dec s1 [(8, 2, None, None)]
    in ts_cell_mode demo_ts2s \<and> ts_ctx demo_ts2s = None \<and>
       demo_enc (encoder demo_ts2s) 7 (Some True) = (1, Inr 70) \<and>
       ts_ctx s1 = Some 70 \<and> ts_ctxmask s1 = Some True \<and> encoder s1 = 1 \<and>
       ts_ctx sn = Some 70 \<and> ts_ctxmask sn = Some True \<and> encoder sn = 1 \<and>
       TS2S_forward demo_enc demo_dec sn 9 3 None None
         = (sn\<lparr>decoder := 3\<rparr>, Inr (73, Some True)))"
  using C9_context_cached
          [where self = demo_ts2s and enc = demo_enc and x = 7 and xmask = "Some True"
             and e = 1 and ctx = 70 and dec = demo_dec and y = 1 and ymask = None
             and enc' = demo_enc and calls = "[(8, 2, None, None)]"
             and x' = 9 and y' = 3 and xmask' = None and ymask' = None]
  by (simp add: demo_ts2s_def demo_enc_def demo_dec_def TS2S_init_def TS2S_forward_def
      TS2S_decode_def Let_def)

section \<open>The horizon\<close>










section \<open>Evaluation on the concrete cores\<close>



section \<open>The causal mask\<close>


lemma length_softmax [simp]: "length (softmax row) = length row"
  by (simp add: softmax_def Let_def)


lemma length_tril_ones [simp]: "length (tril_ones n) = n"
  by (simp add: tril_ones_def)




section \<open>Steps in cell mode\<close>

lemma length_proj_heads [simp]: "length (proj_heads H D l x) = length x"
  by (simp add: proj_heads_def view_heads_def)

lemma size1_proj_heads [simp]: "size1 (proj_heads H D l x) = size1 x"
  by (cases x) (simp_all add: proj_heads_def view_heads_def size1_def)



















lemma wf_mha_dyn [simp]:
  "wf_mha (self\<lparr>prev_k := a\<rparr>) = wf_mha self"
  "wf_mha (self\<lparr>prev_v := b\<rparr>) = wf_mha self"
  "wf_mha (self\<lparr>cache_relpos_vec := c\<rparr>) = wf_mha self"
  "wf_mha (self\<lparr>cache_relpos_sizes := d\<rparr>) = wf_mha self"
  by (simp_all add: wf_mha_def cong: option.case_cong)

lemma relpos_cache_ok_dyn [simp]:
  "relpos_cache_ok (self\<lparr>prev_k := a\<rparr>) = relpos_cache_ok self"
  "relpos_cache_ok (self\<lparr>prev_v := b\<rparr>) = relpos_cache_ok self"
  by (simp_all add: relpos_cache_ok_def cong: option.case_cong prod.case_cong)


lemma cell_state_static [simp]:
  "indim (cell_state self x dev) = indim self"
  "relpos (cell_state self x dev) = relpos self"
  "maxlen (cell_state self x dev) = maxlen self"
  "numheads (cell_state self x dev) = numheads self"
  "d_k (cell_state self x dev) = d_k self"
  "d_v (cell_state self x dev) = d_v self"
  "q_proj (cell_state self x dev) = q_proj self"
  "k_proj (cell_state self x dev) = k_proj self"
  "v_proj (cell_state self x dev) = v_proj self"
  "vw_proj (cell_state self x dev) = vw_proj self"
  "relpos_emb (cell_state self x dev) = relpos_emb self"
  "relpos_k_proj (cell_state self x dev) = relpos_k_proj self"
  "relpos_u (cell_state self x dev) = relpos_u self"
  "relpos_v (cell_state self x dev) = relpos_v self"
  "scale (cell_state self x dev) = scale self"
  "bidir (cell_state self x dev) = bidir self"
  "cell_mode (cell_state self x dev) = cell_mode self"
  "horizon (cell_state self x dev) = horizon self"
  "lm_mode (cell_state self x dev) = lm_mode self"
  by (simp_all add: cell_state_def Let_def split: option.splits)


lemma cell_rel_static:
  assumes "numheads s = numheads s'" and "d_k s = d_k s'" and "k_proj s = k_proj s'"
    and "relpos_emb s = relpos_emb s'" and "maxlen s = maxlen s'"
  shows "cell_rel s ql kl = cell_rel s' ql kl"
  using assms by (simp add: cell_rel_def cong: option.case_cong)









end
